theory Spec2Isabelle
  imports Main "HOL-Library.Word"
begin

section \<open>The GrpcKind controller: data model\<close>

text \<open>
  The embedding follows \<^verbatim>\<open>internal/controller/grpckind/grpckind.go\<close> and
  \<^verbatim>\<open>apis/mygroup/v1alpha1/grpckind_types.go\<close>. A Go slice is a list option
  (\<open>None\<close> is the nil slice, \<open>Some []\<close> the empty non-nil slice), a Go pointer
  is an option, a Go \<^verbatim>\<open>error\<close> is an option of a message, and a call that
  returns \<^verbatim>\<open>(resp, err)\<close> returns a pair of two options, since the interface
  type lets both be nil or both be non-nil.
\<close>

type_synonym int32 = "32 word"

text \<open>A non-nil Go error; \<open>err_Error\<close> is its \<^verbatim>\<open>Error()\<close> method.\<close>

datatype error = Error string

fun err_Error :: "error \<Rightarrow> string" where
  "err_Error (Error msg) = msg"

text \<open>How the formatting verbs of \<^verbatim>\<open>fmt\<close> print an error value that may be nil.\<close>

fun Sprint :: "error option \<Rightarrow> string" where
  "Sprint None = ''<nil>''"
| "Sprint (Some e) = err_Error e"

definition errNotGrpcKind :: string where
  "errNotGrpcKind = ''managed resource is not a GrpcKind custom resource''"

subsection \<open>The custom resource (grpckind_types.go)\<close>

record GrpcKindParameters =
  Name :: string
  Description :: "string option"
  ListItems :: "int32 list option"

record GrpcKindObservation =
  Observation_Status :: string

record GrpcKindSpec =
  ForProvider :: GrpcKindParameters

text \<open>
  \<^verbatim>\<open>xpv1.ResourceStatus\<close> belongs to crossplane-runtime, which is not part of
  the repository: its state is the type parameter \<open>'st\<close>.
\<close>

record 'st GrpcKindStatus =
  ResourceStatus :: 'st
  AtProvider :: GrpcKindObservation

record 'st GrpcKind =
  ObjectMeta_Name :: string
  Spec :: GrpcKindSpec
  Status :: "'st GrpcKindStatus"

text \<open>
  A value of the interface \<^verbatim>\<open>resource.Managed\<close>: either a (non-nil) pointer to
  a GrpcKind, on which the type assertion \<^verbatim>\<open>mg.(*v1alpha1.GrpcKind)\<close> succeeds,
  or a resource of another kind, given by the name of its kind.
\<close>

datatype 'st Managed = GrpcKindMg "'st GrpcKind" | OtherManaged string

text \<open>
  The two library operations that Observe applies to the resource status,
  \<^verbatim>\<open>xpv1.Available()\<close> and \<^verbatim>\<open>SetConditions\<close>, are parameters of the model.
\<close>

record ('c, 'st) xpv1 =
  Available :: 'c
  SetConditions :: "'c list \<Rightarrow> 'st \<Rightarrow> 'st"

subsection \<open>The remote list service\<close>

text \<open>
  Modelled from the spec: the request and response messages of the package
  \<^verbatim>\<open>listServicepb\<close> are not among the sources. Their fields are the ones the
  controller reads and writes; the spec gives the items as sequences of 32-bit
  integers.
\<close>

record GetListReq =
  GetListReq_Name :: string

record GetListResp =
  GetListResp_Status :: string
  GetListResp_Items :: "int32 list option"

record CreateListReq =
  CreateListReq_Name :: string
  CreateListReq_Description :: string

record CreateListResp =
  CreateListResp_Status :: string

record UpdateListItemsReq =
  UpdateListItemsReq_Name :: string
  UpdateListItemsReq_NewItems :: "int32 list option"

record UpdateListItemsResp =
  UpdateListItemsResp_Status :: string

record DeleteListReq =
  DeleteListReq_Name :: string

record DeleteListResp =
  DeleteListResp_Status :: string

text \<open>
  The interface \<^verbatim>\<open>ListServiceClient\<close>. Every operation of the controller makes
  at most one remote call, so the answer of the service is a function of the request.
\<close>

record ListServiceClient =
  GetList :: "GetListReq \<Rightarrow> GetListResp option \<times> error option"
  CreateList :: "CreateListReq \<Rightarrow> CreateListResp option \<times> error option"
  UpdateListItems :: "UpdateListItemsReq \<Rightarrow> UpdateListItemsResp option \<times> error option"
  DeleteList :: "DeleteListReq \<Rightarrow> DeleteListResp option \<times> error option"

subsection \<open>What an operation does and returns\<close>

datatype rpc_call =
    GetListCall GetListReq
  | CreateListCall CreateListReq
  | UpdateListItemsCall UpdateListItemsReq
  | DeleteListCall DeleteListReq

datatype level = InfoLevel | ErrorLevel

text \<open>
  An event is a remote call or a log line (its level, its literal text and the
  arguments printed, errors by their message).
\<close>

datatype event = Call rpc_call | Logged level string "string list"

fun calls :: "event list \<Rightarrow> rpc_call list" where
  "calls [] = []"
| "calls (Call c # es) = c # calls es"
| "calls (Logged l f as # es) = calls es"

text \<open>
  \<^verbatim>\<open>managed.ConnectionDetails\<close> is a map from keys to secret bytes; \<open>None\<close> is the
  nil map of a zero-valued struct and \<open>Some []\<close> the empty map literal.
\<close>

type_synonym ConnectionDetails = "(string \<times> 8 word list) list option"

record ExternalObservation =
  ResourceExists :: bool
  ResourceUpToDate :: bool
  Observation_ConnectionDetails :: ConnectionDetails

record ExternalCreation =
  Creation_ConnectionDetails :: ConnectionDetails

record ExternalUpdate =
  Update_ConnectionDetails :: ConnectionDetails

text \<open>An operation either returns a value and an error (nil is \<open>None\<close>) or panics.\<close>

datatype 'a completion = Returned 'a "error option" | Panicked

text \<open>
  The run of an operation: how it completes, the managed resource afterwards (the
  operations write through the pointer they are given) and the events in order.
\<close>

record ('a, 'st) exec =
  completion :: "'a completion"
  mg_after :: "'st Managed"
  events :: "event list"

section \<open>Library functions\<close>

text \<open>\<^verbatim>\<open>strings.Contains(s, substr)\<close>: \<open>substr\<close> occurs in \<open>s\<close>.\<close>

fun HasPrefix :: "string \<Rightarrow> string \<Rightarrow> bool" where
  "HasPrefix s [] = True"
| "HasPrefix [] (p # ps) = False"
| "HasPrefix (c # cs) (p # ps) = (c = p \<and> HasPrefix cs ps)"

fun Contains :: "string \<Rightarrow> string \<Rightarrow> bool" where
  "Contains [] substr = (substr = [])"
| "Contains (c # cs) substr = (HasPrefix (c # cs) substr \<or> Contains cs substr)"

text \<open>
  \<^verbatim>\<open>reflect.DeepEqual\<close> on two values of type \<^verbatim>\<open>[]int32\<close>: a nil slice and a
  non-nil slice are never equal; otherwise the lengths and then the elements, place
  by place, are compared.
\<close>

fun DeepEqual :: "int32 list option \<Rightarrow> int32 list option \<Rightarrow> bool" where
  "DeepEqual None None = True"
| "DeepEqual None (Some ys) = False"
| "DeepEqual (Some xs) None = False"
| "DeepEqual (Some xs) (Some ys) =
     (length xs = length ys \<and> list_all (\<lambda>(x, y). x = y) (zip xs ys))"

section \<open>The external client (grpckind.go)\<close>

text \<open>
  The test \<^verbatim>\<open>err != nil && strings.Contains(err.Error(), "does not exist")\<close>,
  which Observe applies and Create negates.
\<close>

definition does_not_exist :: "error option \<Rightarrow> bool" where
  "does_not_exist err =
     (case err of None \<Rightarrow> False | Some e \<Rightarrow> Contains (err_Error e) ''does not exist'')"

definition Observe ::
  "('c, 'st) xpv1 \<Rightarrow> ListServiceClient \<Rightarrow> 'st Managed \<Rightarrow> (ExternalObservation, 'st) exec" where
  "Observe xp c mg =
     (case mg of
        OtherManaged k \<Rightarrow>
          \<lparr>completion =
             Returned \<lparr>ResourceExists = False, ResourceUpToDate = False,
                       Observation_ConnectionDetails = None\<rparr>
                      (Some (Error errNotGrpcKind)),
           mg_after = mg, events = []\<rparr>
      | GrpcKindMg cr \<Rightarrow>
          (let req = \<lparr>GetListReq_Name = Name (ForProvider (Spec cr))\<rparr>;
               ev = [Logged InfoLevel ''Observing: %+v...'' [Name (ForProvider (Spec cr))],
                     Call (GetListCall req)];
               (resp, getErr) = GetList c req
           in if does_not_exist getErr then
                \<lparr>completion =
                   Returned \<lparr>ResourceExists = False, ResourceUpToDate = True,
                             Observation_ConnectionDetails = Some []\<rparr> None,
                 mg_after = GrpcKindMg cr,
                 events = ev @ [Logged ErrorLevel ''Observe::External resource does not : ''
                                  [Sprint getErr]]\<rparr>
              else
                (let cr1 = (case resp of
                              None \<Rightarrow> cr
                            | Some r \<Rightarrow>
                                if GetListResp_Status r = ''SUCCESS''
                                then cr\<lparr>Status := (Status cr)\<lparr>ResourceStatus :=
                                          SetConditions xp [Available xp]
                                            (ResourceStatus (Status cr))\<rparr>\<rparr>
                                else cr)
                 in case resp of
                      None \<Rightarrow>
                        \<lparr>completion =
                           Returned \<lparr>ResourceExists = True, ResourceUpToDate = True,
                                     Observation_ConnectionDetails = Some []\<rparr> None,
                         mg_after = GrpcKindMg cr1, events = ev\<rparr>
                    | Some r \<Rightarrow>
                        if \<not> DeepEqual (GetListResp_Items r) (ListItems (ForProvider (Spec cr)))
                        then
                          \<lparr>completion =
                             Returned \<lparr>ResourceExists = True, ResourceUpToDate = False,
                                       Observation_ConnectionDetails = Some []\<rparr> None,
                           mg_after = GrpcKindMg cr1, events = ev\<rparr>
                        else
                          \<lparr>completion =
                             Returned \<lparr>ResourceExists = True, ResourceUpToDate = True,
                                       Observation_ConnectionDetails = Some []\<rparr> None,
                           mg_after = GrpcKindMg cr1, events = ev\<rparr>)))"

definition Create ::
  "ListServiceClient \<Rightarrow> 'st Managed \<Rightarrow> (ExternalCreation, 'st) exec" where
  "Create c mg =
     (case mg of
        OtherManaged k \<Rightarrow>
          \<lparr>completion = Returned \<lparr>Creation_ConnectionDetails = None\<rparr>
                                 (Some (Error errNotGrpcKind)),
           mg_after = mg, events = []\<rparr>
      | GrpcKindMg cr \<Rightarrow>
          (let description = '''';
               cr1 = (if Description (ForProvider (Spec cr)) \<noteq> None
                      then cr\<lparr>Spec := (Spec cr)\<lparr>ForProvider :=
                                (ForProvider (Spec cr))\<lparr>Description := Some description\<rparr>\<rparr>\<rparr>
                      else cr);
               req = \<lparr>CreateListReq_Name = Name (ForProvider (Spec cr1)),
                      CreateListReq_Description = description\<rparr>;
               ev = [Logged InfoLevel ''Creating: %+v'' [ObjectMeta_Name cr],
                     Call (CreateListCall req)];
               (createResp, err) = CreateList c req
           in if err \<noteq> None \<and> \<not> does_not_exist err then
                \<lparr>completion = Returned \<lparr>Creation_ConnectionDetails = Some []\<rparr> None,
                 mg_after = GrpcKindMg cr1,
                 events = ev @ [Logged ErrorLevel ''Error creating list: '' [Sprint err]]\<rparr>
              else
                (case createResp of
                   None \<Rightarrow> \<lparr>completion = Panicked, mg_after = GrpcKindMg cr1, events = ev\<rparr>
                 | Some r \<Rightarrow>
                     \<lparr>completion = Returned \<lparr>Creation_ConnectionDetails = Some []\<rparr> None,
                      mg_after = GrpcKindMg
                        (cr1\<lparr>Status := (Status cr1)\<lparr>AtProvider :=
                               (AtProvider (Status cr1))\<lparr>Observation_Status :=
                                  CreateListResp_Status r\<rparr>\<rparr>\<rparr>),
                      events = ev\<rparr>)))"

definition Update ::
  "ListServiceClient \<Rightarrow> 'st Managed \<Rightarrow> (ExternalUpdate, 'st) exec" where
  "Update c mg =
     (case mg of
        OtherManaged k \<Rightarrow>
          \<lparr>completion = Returned \<lparr>Update_ConnectionDetails = None\<rparr>
                                 (Some (Error errNotGrpcKind)),
           mg_after = mg, events = []\<rparr>
      | GrpcKindMg cr \<Rightarrow>
          (let req = \<lparr>UpdateListItemsReq_Name = Name (ForProvider (Spec cr)),
                      UpdateListItemsReq_NewItems = ListItems (ForProvider (Spec cr))\<rparr>;
               ev = [Logged InfoLevel
                       ''Update::Update method called... Updating resource: %+v''
                       [ObjectMeta_Name cr],
                     Call (UpdateListItemsCall req)];
               (updateResp, err) = UpdateListItems c req
           in if err \<noteq> None then
                \<lparr>completion = Returned \<lparr>Update_ConnectionDetails = Some []\<rparr> err,
                 mg_after = mg,
                 events = ev @ [Logged InfoLevel ''Update:: Error updating list %v: %v''
                                  [Name (ForProvider (Spec cr)), Sprint err]]\<rparr>
              else
                \<lparr>completion = Returned \<lparr>Update_ConnectionDetails = Some []\<rparr> None,
                 mg_after = mg, events = ev\<rparr>))"

text \<open>Delete returns an error only; the texts of its log lines end with a line feed.\<close>

definition Delete :: "ListServiceClient \<Rightarrow> 'st Managed \<Rightarrow> (unit, 'st) exec" where
  "Delete c mg =
     (case mg of
        OtherManaged k \<Rightarrow>
          \<lparr>completion = Returned () (Some (Error errNotGrpcKind)),
           mg_after = mg, events = []\<rparr>
      | GrpcKindMg cr \<Rightarrow>
          (let req = \<lparr>DeleteListReq_Name = Name (ForProvider (Spec cr))\<rparr>;
               ev = [Logged InfoLevel (''Delete::Deleting: %+v'' @ [CHR 0x0A])
                       [ObjectMeta_Name cr],
                     Call (DeleteListCall req)];
               (deleteResp, err) = DeleteList c req
           in if err \<noteq> None then
                \<lparr>completion = Returned () err, mg_after = mg,
                 events = ev @ [Logged ErrorLevel
                                  (''Delete:: Error deleting list %v: %v'' @ [CHR 0x0A])
                                  [Name (ForProvider (Spec cr)), Sprint err]]\<rparr>
              else
                (case deleteResp of
                   None \<Rightarrow> \<lparr>completion = Panicked, mg_after = mg, events = ev\<rparr>
                 | Some r \<Rightarrow>
                     \<lparr>completion = Returned () None, mg_after = mg,
                      events = ev @ [Logged InfoLevel
                                       (''Delete:: Delete Status for list %v: %v'' @ [CHR 0x0A])
                                       [Name (ForProvider (Spec cr)),
                                        DeleteListResp_Status r]]\<rparr>)))"

section \<open>The three outcomes of an observation\<close>

text \<open>
  The spec names three outcomes of Observe. They are read off the two flags of the
  observation the way the reconciler reads them: a resource that does not exist is
  created, one that exists and is not up to date is updated, one that exists and is up
  to date is left alone.
\<close>

datatype ReconciliationOutcome = Absent | PresentStale | PresentCurrent

definition outcome :: "ExternalObservation \<Rightarrow> ReconciliationOutcome" where
  "outcome obs =
     (if \<not> ResourceExists obs then Absent
      else if \<not> ResourceUpToDate obs then PresentStale
      else PresentCurrent)"

text \<open>The observations that Observe returns on its three ways out after the lookup.\<close>

definition obs_absent :: ExternalObservation where
  "obs_absent = \<lparr>ResourceExists = False, ResourceUpToDate = True,
                  Observation_ConnectionDetails = Some []\<rparr>"

definition obs_stale :: ExternalObservation where
  "obs_stale = \<lparr>ResourceExists = True, ResourceUpToDate = False,
                 Observation_ConnectionDetails = Some []\<rparr>"

definition obs_current :: ExternalObservation where
  "obs_current = \<lparr>ResourceExists = True, ResourceUpToDate = True,
                   Observation_ConnectionDetails = Some []\<rparr>"

section \<open>Notions used in the statements\<close>

text \<open>The desired state carried by a managed resource, if it is a GrpcKind.\<close>

fun desired :: "'st Managed \<Rightarrow> GrpcKindParameters option" where
  "desired (GrpcKindMg cr) = Some (ForProvider (Spec cr))"
| "desired (OtherManaged k) = None"

text \<open>
  The resource after \<^verbatim>\<open>cr.Status.SetConditions(xpv1.Available())\<close>, and the test
  \<^verbatim>\<open>resp != nil && resp.Status == "SUCCESS"\<close> on a response.
\<close>

definition mark_ready :: "('c, 'st) xpv1 \<Rightarrow> 'st GrpcKind \<Rightarrow> 'st GrpcKind" where
  "mark_ready xp cr =
     cr\<lparr>Status := (Status cr)\<lparr>ResourceStatus :=
          SetConditions xp [Available xp] (ResourceStatus (Status cr))\<rparr>\<rparr>"

definition status_SUCCESS :: "GetListResp option \<Rightarrow> bool" where
  "status_SUCCESS resp =
     (case resp of None \<Rightarrow> False | Some r \<Rightarrow> GetListResp_Status r = ''SUCCESS'')"

text \<open>
  The client that the controller builds (\<^verbatim>\<open>listServicepb.NewListServiceClient\<close>
  in \<^verbatim>\<open>newListService\<close>) is a generated gRPC client: a call that fails returns a
  nil response with its error, so a response comes only with a nil error.
\<close>

fun grpc_answer :: "'r option \<times> error option \<Rightarrow> bool" where
  "grpc_answer (Some r, Some e) = False"
| "grpc_answer (Some r, None) = True"
| "grpc_answer (None, err) = True"

section \<open>Example inputs\<close>

text \<open>
  A stand-in for the status library (the status is the list of the conditions set so
  far), a desired state with a description and three items, and a client that gives
  the same answer to every request.
\<close>

definition xp_example :: "(string, string list) xpv1" where
  "xp_example = \<lparr>Available = ''Available'', SetConditions = (\<lambda>cs st. st @ cs)\<rparr>"

definition cr_example :: "string list GrpcKind" where
  "cr_example =
     \<lparr>ObjectMeta_Name = ''a'',
      Spec = \<lparr>ForProvider = \<lparr>Name = ''a'', Description = Some ''my list'',
                               ListItems = Some [1, 2, 3]\<rparr>\<rparr>,
      Status = \<lparr>ResourceStatus = [], AtProvider = \<lparr>Observation_Status = ''''\<rparr>\<rparr>\<rparr>"

definition stub_client ::
  "GetListResp option \<times> error option \<Rightarrow> CreateListResp option \<times> error option \<Rightarrow>
   UpdateListItemsResp option \<times> error option \<Rightarrow> DeleteListResp option \<times> error option \<Rightarrow>
   ListServiceClient" where
  "stub_client g cr u d =
     \<lparr>GetList = (\<lambda>req. g), CreateList = (\<lambda>req. cr),
      UpdateListItems = (\<lambda>req. u), DeleteList = (\<lambda>req. d)\<rparr>"

text \<open>A client whose GetList gives the answer \<open>g\<close> and whose other calls fail.\<close>

definition get_client :: "GetListResp option \<times> error option \<Rightarrow> ListServiceClient" where
  "get_client g =
     stub_client g (None, Some (Error ''unavailable'')) (None, Some (Error ''unavailable''))
       (None, Some (Error ''unavailable''))"

text \<open>A client whose CreateList gives the answer \<open>cr\<close> and whose other calls fail.\<close>

definition create_client :: "CreateListResp option \<times> error option \<Rightarrow> ListServiceClient" where
  "create_client cr =
     stub_client (None, Some (Error ''unavailable'')) cr (None, Some (Error ''unavailable''))
       (None, Some (Error ''unavailable''))"

text \<open>The example resource with another list of items, and an example response.\<close>

definition cr_items :: "int32 list option \<Rightarrow> string list GrpcKind" where
  "cr_items xs =
     cr_example\<lparr>Spec := \<lparr>ForProvider = \<lparr>Name = ''a'', Description = Some ''my list'',
                                          ListItems = xs\<rparr>\<rparr>\<rparr>"

definition resp_items :: "int32 list option \<Rightarrow> GetListResp" where
  "resp_items xs = \<lparr>GetListResp_Status = ''SUCCESS'', GetListResp_Items = xs\<rparr>"

section \<open>Facts about the library functions\<close>

lemma HasPrefix_iff: "HasPrefix s p \<longleftrightarrow> (\<exists>b. s = p @ b)"
  by (induction s p rule: HasPrefix.induct) auto

text \<open>\<open>Contains\<close> holds exactly when the second string occurs inside the first.\<close>

lemma Contains_iff: "Contains s sub \<longleftrightarrow> (\<exists>a b. s = a @ sub @ b)"
proof (induction s)
  case Nil
  then show ?case by auto
next
  case (Cons c cs)
  show ?case
  proof
    assume "Contains (c # cs) sub"
    then consider "HasPrefix (c # cs) sub" | "Contains cs sub" by auto
    then show "\<exists>a b. c # cs = a @ sub @ b"
    proof cases
      case 1
      then obtain b where "c # cs = sub @ b" by (auto simp: HasPrefix_iff)
      then have "c # cs = [] @ sub @ b" by simp
      then show ?thesis by blast
    next
      case 2
      then obtain a b where "cs = a @ sub @ b" using Cons.IH by blast
      then have "c # cs = (c # a) @ sub @ b" by simp
      then show ?thesis by blast
    qed
  next
    assume "\<exists>a b. c # cs = a @ sub @ b"
    then obtain a b where ab: "c # cs = a @ sub @ b" by blast
    show "Contains (c # cs) sub"
    proof (cases a)
      case Nil
      then have "HasPrefix (c # cs) sub" using ab by (auto simp: HasPrefix_iff)
      then show ?thesis by simp
    next
      case (Cons x a')
      then have "cs = a' @ sub @ b" using ab by simp
      then have "Contains cs sub" using Cons.IH by blast
      then show ?thesis by simp
    qed
  qed
qed

lemma zip_all_eq:
  "length xs = length ys \<Longrightarrow> list_all (\<lambda>(x, y). x = y) (zip xs ys) \<longleftrightarrow> xs = ys"
  by (induction xs ys rule: list_induct2) auto

text \<open>
  On slices of integers \<open>DeepEqual\<close> is equality of the slice values: the same
  elements in the same order, and a nil slice equal to a nil slice only.
\<close>

lemma DeepEqual_iff: "DeepEqual a b \<longleftrightarrow> a = b"
  by (cases a; cases b) (auto simp: zip_all_eq)

lemma outcome_simps:
  "outcome obs_absent = Absent" "outcome obs_stale = PresentStale"
  "outcome obs_current = PresentCurrent"
  by (simp_all add: outcome_def obs_absent_def obs_stale_def obs_current_def)

section \<open>What the operations return\<close>

text \<open>Observe on a GrpcKind, by the answer of the lookup.\<close>

lemma Observe_GrpcKind:
  assumes "GetList c \<lparr>GetListReq_Name = Name (ForProvider (Spec cr))\<rparr> = (resp, getErr)"
  shows "completion (Observe xp c (GrpcKindMg cr)) =
           Returned (if does_not_exist getErr then obs_absent
                     else case resp of
                            None \<Rightarrow> obs_current
                          | Some r \<Rightarrow>
                              if GetListResp_Items r = ListItems (ForProvider (Spec cr))
                              then obs_current else obs_stale) None"
  using assms
  by (simp add: Observe_def Let_def DeepEqual_iff obs_absent_def obs_stale_def obs_current_def
           split: option.splits)

text \<open>Create on a GrpcKind, by the answer of the remote call.\<close>

lemma Create_GrpcKind:
  assumes "CreateList c \<lparr>CreateListReq_Name = Name (ForProvider (Spec cr)),
                          CreateListReq_Description = ''''\<rparr> = (createResp, err)"
  shows "completion (Create c (GrpcKindMg cr)) =
           (if err \<noteq> None \<and> \<not> does_not_exist err
            then Returned \<lparr>Creation_ConnectionDetails = Some []\<rparr> None
            else case createResp of
                   None \<Rightarrow> Panicked
                 | Some r \<Rightarrow> Returned \<lparr>Creation_ConnectionDetails = Some []\<rparr> None)"
  using assms by (simp add: Create_def Let_def split: option.splits)

lemma Create_events_calls:
  "calls (events (Create c (GrpcKindMg cr))) =
     [CreateListCall \<lparr>CreateListReq_Name = Name (ForProvider (Spec cr)),
                      CreateListReq_Description = ''''\<rparr>]"
  by (simp add: Create_def Let_def split: prod.splits option.splits)

lemma Create_desired_after:
  "desired (mg_after (Create c (GrpcKindMg cr))) =
     Some ((ForProvider (Spec cr))
        \<lparr>Description := map_option (\<lambda>d. '''') (Description (ForProvider (Spec cr)))\<rparr>)"
  by (auto simp add: Create_def Let_def split: prod.splits option.splits)

lemma Create_events_error:
  assumes "CreateList c \<lparr>CreateListReq_Name = Name (ForProvider (Spec cr)),
                          CreateListReq_Description = ''''\<rparr> = (createResp, Some e)"
    and "\<not> Contains (err_Error e) ''does not exist''"
  shows "events (Create c (GrpcKindMg cr)) =
           [Logged InfoLevel ''Creating: %+v'' [ObjectMeta_Name cr],
            Call (CreateListCall \<lparr>CreateListReq_Name = Name (ForProvider (Spec cr)),
                                   CreateListReq_Description = ''''\<rparr>),
            Logged ErrorLevel ''Error creating list: '' [err_Error e]]"
  using assms by (simp add: Create_def Let_def does_not_exist_def split: option.splits)

text \<open>The answers of the example clients.\<close>

lemma GetList_get_client: "GetList (get_client g) req = g"
  by (simp add: get_client_def stub_client_def)

lemma CreateList_create_client: "CreateList (create_client a) req = a"
  by (simp add: create_client_def stub_client_def)

section \<open>Observe and errors of the lookup\<close>

text \<open>
  A lookup that fails with ``connection refused'' and no response: Observe returns a
  nil error and reports the resource as existing and up to date, so the error of the
  lookup is not the error result of Observe.
\<close>

theorem Observe_other_error_counterexample:
  "GetList (get_client (None, Some (Error ''connection refused'')))
       \<lparr>GetListReq_Name = Name (ForProvider (Spec cr_example))\<rparr>
     = (None, Some (Error ''connection refused''))
   \<and> \<not> Contains (err_Error (Error ''connection refused'')) ''does not exist''
   \<and> completion (Observe xp_example (get_client (None, Some (Error ''connection refused'')))
        (GrpcKindMg cr_example)) = Returned obs_current None"
  by (simp add: Observe_def get_client_def stub_client_def cr_example_def does_not_exist_def
        obs_current_def)

text \<open>
  Claim C1, as amended. For every desired state and every GetList error whose message
  does not contain ``does not exist'', Observe does not surface the error: it returns
  a nil error. Its observation says that the resource exists; it is up to date when
  there is no response, and otherwise when the items of the response equal the desired
  items.
\<close>

theorem Observe_other_error_swallowed:
  assumes "GetList c \<lparr>GetListReq_Name = Name (ForProvider (Spec cr))\<rparr> = (resp, Some e)"
    and "\<not> Contains (err_Error e) ''does not exist''"
  shows "completion (Observe xp c (GrpcKindMg cr)) =
           Returned (case resp of
                       None \<Rightarrow> obs_current
                     | Some r \<Rightarrow>
                         if GetListResp_Items r = ListItems (ForProvider (Spec cr))
                         then obs_current else obs_stale) None"
  using Observe_GrpcKind [OF assms(1), of xp] assms(2) by (simp add: does_not_exist_def)

theorem Observe_other_error_swallowed_witness:
  "GetList (get_client (None, Some (Error ''deadline exceeded'')))
       \<lparr>GetListReq_Name = Name (ForProvider (Spec cr_example))\<rparr>
     = (None, Some (Error ''deadline exceeded''))
   \<and> \<not> Contains (err_Error (Error ''deadline exceeded'')) ''does not exist''
   \<and> completion (Observe xp_example (get_client (None, Some (Error ''deadline exceeded'')))
        (GrpcKindMg cr_example)) = Returned obs_current None"
proof -
  have g: "GetList (get_client (None, Some (Error ''deadline exceeded'')))
       \<lparr>GetListReq_Name = Name (ForProvider (Spec cr_example))\<rparr>
     = (None, Some (Error ''deadline exceeded''))"
    by (simp add: GetList_get_client)
  have n: "\<not> Contains (err_Error (Error ''deadline exceeded'')) ''does not exist''"
    by simp
  show ?thesis
    using g n Observe_other_error_swallowed [OF g n, of xp_example] by simp
qed

section \<open>Create\<close>

text \<open>
  Claim C2. For every desired state and whatever the service answers, the one remote
  call of Create is a CreateList with the name of the desired state and the empty
  description, and the description field of the desired state is cleared: a supplied
  description has become the empty string (an omitted one stays omitted). The write
  to the field comes before the call in the source, and it is there also when Create
  panics after the call.
\<close>

theorem Create_sends_empty_description:
  "calls (events (Create c (GrpcKindMg cr))) =
     [CreateListCall \<lparr>CreateListReq_Name = Name (ForProvider (Spec cr)),
                      CreateListReq_Description = ''''\<rparr>]
   \<and> desired (mg_after (Create c (GrpcKindMg cr))) =
     Some ((ForProvider (Spec cr))
        \<lparr>Description := map_option (\<lambda>d. '''') (Description (ForProvider (Spec cr)))\<rparr>)"
  using Create_events_calls Create_desired_after by blast

theorem Create_sends_empty_description_witness:
  "calls (events (Create (create_client (Some \<lparr>CreateListResp_Status = ''SUCCESS''\<rparr>, None))
       (GrpcKindMg cr_example))) =
     [CreateListCall \<lparr>CreateListReq_Name = ''a'', CreateListReq_Description = ''''\<rparr>]
   \<and> desired (mg_after (Create (create_client (Some \<lparr>CreateListResp_Status = ''SUCCESS''\<rparr>, None))
       (GrpcKindMg cr_example))) =
     Some \<lparr>Name = ''a'', Description = Some '''', ListItems = Some [1, 2, 3]\<rparr>"
  using Create_sends_empty_description
    [of "create_client (Some \<lparr>CreateListResp_Status = ''SUCCESS''\<rparr>, None)" cr_example]
  by (simp add: cr_example_def)

text \<open>
  Claim C3. For every desired state, if the CreateList call fails with an error whose
  message does not contain ``does not exist'', Create returns a nil error; the last
  thing it does is to log the error at error level.
\<close>

theorem Create_swallows_other_error:
  assumes "CreateList c \<lparr>CreateListReq_Name = Name (ForProvider (Spec cr)),
                          CreateListReq_Description = ''''\<rparr> = (createResp, Some e)"
    and "\<not> Contains (err_Error e) ''does not exist''"
  shows "completion (Create c (GrpcKindMg cr)) =
           Returned \<lparr>Creation_ConnectionDetails = Some []\<rparr> None
         \<and> last (events (Create c (GrpcKindMg cr))) =
             Logged ErrorLevel ''Error creating list: '' [err_Error e]"
  using Create_GrpcKind [OF assms(1)] Create_events_error [OF assms] assms(2)
  by (simp add: does_not_exist_def)

theorem Create_swallows_other_error_witness:
  "CreateList (create_client (None, Some (Error ''already exists'')))
       \<lparr>CreateListReq_Name = Name (ForProvider (Spec cr_example)),
        CreateListReq_Description = ''''\<rparr> = (None, Some (Error ''already exists''))
   \<and> \<not> Contains (err_Error (Error ''already exists'')) ''does not exist''
   \<and> completion (Create (create_client (None, Some (Error ''already exists'')))
        (GrpcKindMg cr_example)) = Returned \<lparr>Creation_ConnectionDetails = Some []\<rparr> None
   \<and> last (events (Create (create_client (None, Some (Error ''already exists'')))
        (GrpcKindMg cr_example))) =
       Logged ErrorLevel ''Error creating list: '' [''already exists'']"
proof -
  have g: "CreateList (create_client (None, Some (Error ''already exists'')))
       \<lparr>CreateListReq_Name = Name (ForProvider (Spec cr_example)),
        CreateListReq_Description = ''''\<rparr> = (None, Some (Error ''already exists''))"
    by (simp add: CreateList_create_client)
  have n: "\<not> Contains (err_Error (Error ''already exists'')) ''does not exist''"
    by simp
  show ?thesis
    using g n Create_swallows_other_error [OF g n] by simp
qed

text \<open>
  Claim C4. If the CreateList call returns a nil response together with an error
  whose message contains ``does not exist'', Create panics: it passes the error
  branch and reads the status of the nil response. If the response is non-nil
  whenever the error branch is passed (the error is nil or contains ``does not
  exist''), the read is safe and Create returns, with a nil error.
\<close>

theorem Create_nil_response_panics:
  assumes "CreateList c \<lparr>CreateListReq_Name = Name (ForProvider (Spec cr)),
                          CreateListReq_Description = ''''\<rparr> = (createResp, err)"
  shows "(createResp = None \<and> does_not_exist err \<longrightarrow>
            completion (Create c (GrpcKindMg cr)) = Panicked)
       \<and> ((\<not> (err \<noteq> None \<and> \<not> does_not_exist err) \<longrightarrow> createResp \<noteq> None) \<longrightarrow>
            completion (Create c (GrpcKindMg cr)) =
              Returned \<lparr>Creation_ConnectionDetails = Some []\<rparr> None)"
  using Create_GrpcKind [OF assms] by (auto split: option.splits)

theorem Create_nil_response_panics_witness:
  "does_not_exist (Some (Error ''list a does not exist''))
   \<and> completion (Create (create_client (None, Some (Error ''list a does not exist'')))
      (GrpcKindMg cr_example)) = Panicked
   \<and> completion (Create (create_client
         (Some \<lparr>CreateListResp_Status = ''SUCCESS''\<rparr>, Some (Error ''list a does not exist'')))
      (GrpcKindMg cr_example)) = Returned \<lparr>Creation_ConnectionDetails = Some []\<rparr> None
   \<and> completion (Create (create_client (Some \<lparr>CreateListResp_Status = ''SUCCESS''\<rparr>, None))
      (GrpcKindMg cr_example)) = Returned \<lparr>Creation_ConnectionDetails = Some []\<rparr> None"
proof -
  have g: "CreateList (create_client a)
       \<lparr>CreateListReq_Name = Name (ForProvider (Spec cr_example)),
        CreateListReq_Description = ''''\<rparr> = a" for a
    by (simp add: CreateList_create_client)
  have d: "does_not_exist (Some (Error ''list a does not exist''))"
    by (simp add: does_not_exist_def)
  show ?thesis
    using d
      Create_nil_response_panics
        [OF g [of "(None, Some (Error ''list a does not exist''))"]]
      Create_nil_response_panics
        [OF g [of "(Some \<lparr>CreateListResp_Status = ''SUCCESS''\<rparr>,
                    Some (Error ''list a does not exist''))"]]
      Create_nil_response_panics
        [OF g [of "(Some \<lparr>CreateListResp_Status = ''SUCCESS''\<rparr>, None)"]]
    by simp
qed

section \<open>Observe: the three outcomes and the ready mark\<close>

text \<open>
  Claim C5. For every desired state whose GetList lookup succeeds (a response and a
  nil error), Observe compares the items of the response with the desired items by
  \<open>DeepEqual\<close>, which is equality of the two slices, element by element and in
  order. If they differ it returns the observation ``exists, not up to date''
  (PresentStale), if they are equal ``exists, up to date'' (PresentCurrent), with a
  nil error.
\<close>

theorem Observe_compares_items:
  assumes "GetList c \<lparr>GetListReq_Name = Name (ForProvider (Spec cr))\<rparr> = (Some r, None)"
  shows "completion (Observe xp c (GrpcKindMg cr)) =
           Returned (if DeepEqual (GetListResp_Items r) (ListItems (ForProvider (Spec cr)))
                     then obs_current else obs_stale) None
       \<and> DeepEqual (GetListResp_Items r) (ListItems (ForProvider (Spec cr))) =
           (GetListResp_Items r = ListItems (ForProvider (Spec cr)))
       \<and> outcome obs_current = PresentCurrent \<and> outcome obs_stale = PresentStale"
  using Observe_GrpcKind [OF assms, of xp]
  by (simp add: does_not_exist_def DeepEqual_iff outcome_simps)

theorem Observe_compares_items_witness:
  "completion (Observe xp_example (get_client (Some (resp_items (Some [1, 2, 3])), None))
       (GrpcKindMg cr_example)) = Returned obs_current None
   \<and> completion (Observe xp_example (get_client (Some (resp_items (Some [1, 3, 2])), None))
       (GrpcKindMg cr_example)) = Returned obs_stale None
   \<and> completion (Observe xp_example (get_client (Some (resp_items (Some [1, 2])), None))
       (GrpcKindMg cr_example)) = Returned obs_stale None"
proof -
  have g: "GetList (get_client (Some r, None))
             \<lparr>GetListReq_Name = Name (ForProvider (Spec cr_example))\<rparr> = (Some r, None)" for r
    by (simp add: GetList_get_client)
  have l: "ListItems (ForProvider (Spec cr_example)) = Some [1, 2, 3]"
    by (simp add: cr_example_def)
  show ?thesis
    using l
      Observe_compares_items [OF g [of "resp_items (Some [1, 2, 3])"], of xp_example]
      Observe_compares_items [OF g [of "resp_items (Some [1, 3, 2])"], of xp_example]
      Observe_compares_items [OF g [of "resp_items (Some [1, 2])"], of xp_example]
    by (simp add: resp_items_def)
qed

text \<open>
  Claim C6. For every desired state, if the GetList lookup fails with an error whose
  message contains ``does not exist'', Observe returns the observation ``does not
  exist'' (Absent) with a nil error, whatever the response is.
\<close>

theorem Observe_absent:
  assumes "GetList c \<lparr>GetListReq_Name = Name (ForProvider (Spec cr))\<rparr> = (resp, Some e)"
    and "Contains (err_Error e) ''does not exist''"
  shows "completion (Observe xp c (GrpcKindMg cr)) = Returned obs_absent None
       \<and> outcome obs_absent = Absent"
  using Observe_GrpcKind [OF assms(1), of xp] assms(2)
  by (simp add: does_not_exist_def outcome_simps)

theorem Observe_absent_witness:
  "GetList (get_client (None, Some (Error ''list a does not exist'')))
       \<lparr>GetListReq_Name = Name (ForProvider (Spec cr_example))\<rparr>
     = (None, Some (Error ''list a does not exist''))
   \<and> Contains (err_Error (Error ''list a does not exist'')) ''does not exist''
   \<and> completion (Observe xp_example (get_client (None, Some (Error ''list a does not exist'')))
        (GrpcKindMg cr_example)) = Returned obs_absent None"
proof -
  have g: "GetList (get_client (None, Some (Error ''list a does not exist'')))
       \<lparr>GetListReq_Name = Name (ForProvider (Spec cr_example))\<rparr>
     = (None, Some (Error ''list a does not exist''))"
    by (simp add: GetList_get_client)
  have n: "Contains (err_Error (Error ''list a does not exist'')) ''does not exist''"
    by simp
  show ?thesis
    using g n Observe_absent [OF g n, of xp_example] by simp
qed

text \<open>
  The resource after Observe, for every answer of the lookup: the ready mark is set
  when Observe gets past the ``does not exist'' return and the response is present
  with status ``SUCCESS''.
\<close>

lemma Observe_mg_after:
  "mg_after (Observe xp c (GrpcKindMg cr)) =
     GrpcKindMg
       (if \<not> does_not_exist (snd (GetList c \<lparr>GetListReq_Name = Name (ForProvider (Spec cr))\<rparr>))
           \<and> status_SUCCESS (fst (GetList c \<lparr>GetListReq_Name = Name (ForProvider (Spec cr))\<rparr>))
        then mark_ready xp cr else cr)"
  by (simp add: Observe_def Let_def status_SUCCESS_def mark_ready_def
           split: prod.splits option.splits)

lemma grpc_answer_error: "grpc_answer (resp, err) \<Longrightarrow> does_not_exist err \<Longrightarrow> resp = None"
  by (cases resp; cases err) (simp_all add: does_not_exist_def)

text \<open>
  Claim C7. With the answers of the gRPC client, Observe marks the resource ready
  (applies SetConditions with the Available condition to the status of the managed
  resource) exactly when the GetList response is present and its status field equals
  ``SUCCESS''; otherwise it leaves the resource as it was. The items play no part in
  this.
\<close>

theorem Observe_marks_ready:
  assumes "GetList c \<lparr>GetListReq_Name = Name (ForProvider (Spec cr))\<rparr> = (resp, err)"
    and "grpc_answer (resp, err)"
  shows "mg_after (Observe xp c (GrpcKindMg cr)) =
           GrpcKindMg (if status_SUCCESS resp then mark_ready xp cr else cr)"
proof (cases "does_not_exist err")
  case True
  then have "resp = None" using assms(2) by (rule grpc_answer_error [rotated])
  then have "\<not> status_SUCCESS resp" by (simp add: status_SUCCESS_def)
  then show ?thesis using True assms(1) Observe_mg_after [of xp c cr] by simp
next
  case False
  then show ?thesis using assms(1) Observe_mg_after [of xp c cr] by simp
qed

theorem Observe_marks_ready_witness:
  "grpc_answer (Some (resp_items (Some [7])), None)
   \<and> status_SUCCESS (Some (resp_items (Some [7])))
   \<and> mg_after (Observe xp_example (get_client (Some (resp_items (Some [7])), None))
       (GrpcKindMg cr_example)) = GrpcKindMg (mark_ready xp_example cr_example)
   \<and> ResourceStatus (Status (mark_ready xp_example cr_example)) = [''Available'']
   \<and> mg_after (Observe xp_example
       (get_client (Some \<lparr>GetListResp_Status = ''PENDING'', GetListResp_Items = Some [1, 2, 3]\<rparr>,
                    None))
       (GrpcKindMg cr_example)) = GrpcKindMg cr_example
   \<and> grpc_answer (None :: GetListResp option, Some (Error ''list a does not exist''))
   \<and> mg_after (Observe xp_example (get_client (None, Some (Error ''list a does not exist'')))
       (GrpcKindMg cr_example)) = GrpcKindMg cr_example"
proof -
  have g: "GetList (get_client a)
             \<lparr>GetListReq_Name = Name (ForProvider (Spec cr_example))\<rparr> = a" for a
    by (simp add: GetList_get_client)
  have w1: "grpc_answer (Some (resp_items (Some [7])), None)"
    by simp
  have w2: "grpc_answer
      (Some \<lparr>GetListResp_Status = ''PENDING'', GetListResp_Items = Some [1, 2, 3]\<rparr>, None)"
    by simp
  have w3: "grpc_answer (None :: GetListResp option, Some (Error ''list a does not exist''))"
    by simp
  show ?thesis
    using w1 w3
      Observe_marks_ready [OF g w1, of xp_example]
      Observe_marks_ready [OF g w2, of xp_example]
      Observe_marks_ready [OF g w3, of xp_example]
    by (simp add: status_SUCCESS_def resp_items_def mark_ready_def xp_example_def
          cr_example_def)
qed

section \<open>Update\<close>

text \<open>
  Claim C8. For every desired state and whatever the service answers, the one remote
  call of Update is an UpdateListItems whose new items are the desired item slice
  itself: every element, in order. Update takes no observed state, so nothing is
  subtracted from the list.
\<close>

theorem Update_sends_all_items:
  "calls (events (Update c (GrpcKindMg cr))) =
     [UpdateListItemsCall \<lparr>UpdateListItemsReq_Name = Name (ForProvider (Spec cr)),
                           UpdateListItemsReq_NewItems = ListItems (ForProvider (Spec cr))\<rparr>]"
  by (simp add: Update_def Let_def split: prod.splits)

theorem Update_sends_all_items_witness:
  "calls (events (Update (get_client (None, None)) (GrpcKindMg cr_example))) =
     [UpdateListItemsCall \<lparr>UpdateListItemsReq_Name = ''a'',
                           UpdateListItemsReq_NewItems = Some [1, 2, 3]\<rparr>]"
  using Update_sends_all_items [of "get_client (None, None)" cr_example]
  by (simp add: cr_example_def)

section \<open>Resources of another kind\<close>

text \<open>
  Claim C9. For every input that is not a GrpcKind, each of Observe, Create, Update
  and Delete returns the error ``managed resource is not a GrpcKind custom resource''
  (with a zero value where it returns a value) and makes no remote call.
\<close>

theorem not_GrpcKind_rejected:
  "completion (Observe xp c (OtherManaged k :: 'st Managed)) =
     Returned \<lparr>ResourceExists = False, ResourceUpToDate = False,
               Observation_ConnectionDetails = None\<rparr>
       (Some (Error ''managed resource is not a GrpcKind custom resource''))
   \<and> completion (Create c (OtherManaged k :: 'st Managed)) =
     Returned \<lparr>Creation_ConnectionDetails = None\<rparr>
       (Some (Error ''managed resource is not a GrpcKind custom resource''))
   \<and> completion (Update c (OtherManaged k :: 'st Managed)) =
     Returned \<lparr>Update_ConnectionDetails = None\<rparr>
       (Some (Error ''managed resource is not a GrpcKind custom resource''))
   \<and> completion (Delete c (OtherManaged k :: 'st Managed)) =
     Returned () (Some (Error ''managed resource is not a GrpcKind custom resource''))
   \<and> calls (events (Observe xp c (OtherManaged k :: 'st Managed))) = []
   \<and> calls (events (Create c (OtherManaged k :: 'st Managed))) = []
   \<and> calls (events (Update c (OtherManaged k :: 'st Managed))) = []
   \<and> calls (events (Delete c (OtherManaged k :: 'st Managed))) = []"
  by (simp add: Observe_def Create_def Update_def Delete_def errNotGrpcKind_def)

theorem not_GrpcKind_rejected_witness:
  "completion (Delete (get_client (None, None))
       (OtherManaged ''Bucket'' :: string list Managed)) =
     Returned () (Some (Error ''managed resource is not a GrpcKind custom resource''))
   \<and> calls (events (Observe xp_example (get_client (None, None))
       (OtherManaged ''Bucket'' :: string list Managed))) = []"
  using not_GrpcKind_rejected [of xp_example "get_client (None, None)" "''Bucket''"]
  by simp

section \<open>Nil and empty item lists\<close>

text \<open>
  Claim C10. The item comparison of Observe tells a nil list from an empty one. With
  the answers of the gRPC client, when the desired item list is nil while the
  response carries a non-nil empty list, or the other way round, the comparison fails
  and Observe returns ``exists, not up to date'' (PresentStale), although neither
  list has an element.
\<close>

theorem Observe_nil_versus_empty:
  assumes "GetList c \<lparr>GetListReq_Name = Name (ForProvider (Spec cr))\<rparr> = (Some r, err)"
    and "grpc_answer (Some r, err)"
    and "ListItems (ForProvider (Spec cr)) = None \<and> GetListResp_Items r = Some []
       \<or> ListItems (ForProvider (Spec cr)) = Some [] \<and> GetListResp_Items r = None"
  shows "\<not> DeepEqual (GetListResp_Items r) (ListItems (ForProvider (Spec cr)))
       \<and> completion (Observe xp c (GrpcKindMg cr)) = Returned obs_stale None
       \<and> outcome obs_stale = PresentStale"
proof -
  have "\<not> does_not_exist err"
    using grpc_answer_error [OF assms(2)] by auto
  then show ?thesis
    using Observe_GrpcKind [OF assms(1), of xp] assms(3)
    by (auto simp add: outcome_simps)
qed

theorem Observe_nil_versus_empty_witness:
  "grpc_answer (Some (resp_items (Some [])), None)
   \<and> ListItems (ForProvider (Spec (cr_items None))) = None
   \<and> GetListResp_Items (resp_items (Some [])) = Some []
   \<and> completion (Observe xp_example (get_client (Some (resp_items (Some [])), None))
        (GrpcKindMg (cr_items None))) = Returned obs_stale None
   \<and> grpc_answer (Some (resp_items None), None)
   \<and> ListItems (ForProvider (Spec (cr_items (Some [])))) = Some []
   \<and> GetListResp_Items (resp_items None) = None
   \<and> completion (Observe xp_example (get_client (Some (resp_items None), None))
        (GrpcKindMg (cr_items (Some [])))) = Returned obs_stale None"
proof -
  have g: "GetList (get_client (Some r, None))
             \<lparr>GetListReq_Name = Name (ForProvider (Spec (cr_items xs)))\<rparr> = (Some r, None)"
    for r xs
    by (simp add: GetList_get_client)
  have n: "grpc_answer (Some r, None)" for r :: GetListResp
    by simp
  have l: "ListItems (ForProvider (Spec (cr_items xs))) = xs" for xs
    by (simp add: cr_items_def)
  have i: "GetListResp_Items (resp_items xs) = xs" for xs
    by (simp add: resp_items_def)
  have a: "completion (Observe xp_example (get_client (Some (resp_items (Some [])), None))
        (GrpcKindMg (cr_items None))) = Returned obs_stale None"
    using Observe_nil_versus_empty [OF g [of "resp_items (Some [])" None] n, of xp_example] l i
    by simp
  have b: "completion (Observe xp_example (get_client (Some (resp_items None), None))
        (GrpcKindMg (cr_items (Some [])))) = Returned obs_stale None"
    using Observe_nil_versus_empty [OF g [of "resp_items None" "Some []"] n, of xp_example] l i
    by simp
  show ?thesis using n l i a b by simp
qed

end
